theory Spec2Isabelle
  imports Complex_Main
begin

section \<open>Third Space Vest event bridge for Arma Reforger\<close>

text \<open>
  The scripts under \<^verbatim>\<open>armareforger-mod/Scripts/Game\<close> hook engine callbacks (damage,
  suppression, collisions, rotor updates), derive a front-relative bearing from world
  vectors, throttle repeated events with a timestamp per component, and hand each event to
  \<^verbatim>\<open>ThirdSpaceTcpClient.SendEvent\<close>, which builds a JSON line and prints it.

  A value of the script type \<^verbatim>\<open>float\<close> is a \<^typ>\<open>real\<close>. In the angle calculations
  every operation rounds its result to single precision, because there the rounding
  decides what is returned: the wrap \<^verbatim>\<open>angle += 360\<close> of a negative angle close to 0
  gives 360. The other float arithmetic of the handlers, the difference of two time stamps
  and the intensity formulas, is written exactly. There is no NaN in the model.
  \<^verbatim>\<open>int\<close> is modelled by \<^typ>\<open>int\<close>; no arithmetic is done on it.
\<close>

subsection \<open>Single-precision rounding\<close>

text \<open>
  \<open>round32 x\<close> is the binary32 number nearest to \<open>x\<close>, ties going to the even
  significand: with \<open>2\<^sup>e \<le> |x| < 2\<^sup>e\<^sup>+\<^sup>1\<close> it is the multiple of \<open>2\<^sup>e\<^sup>-\<^sup>2\<^sup>3\<close> nearest to \<open>x\<close>. The
  exponent is not bounded: the model has no overflow to infinity and no subnormal numbers.
  \<open>fmul\<close>, \<open>fsub\<close> and \<open>fadd\<close> are the script's \<^verbatim>\<open>*\<close>, \<^verbatim>\<open>-\<close> and \<^verbatim>\<open>+\<close> on floats.
\<close>

definition pow2 :: "int \<Rightarrow> real" where
  "pow2 e = (if 0 \<le> e then 2 ^ nat e else 1 / 2 ^ nat (- e))"

definition rne :: "real \<Rightarrow> int" where
  "rne x =
     (let f = \<lfloor>x\<rfloor>; r = x - of_int f
      in if r < 1 / 2 then f else if 1 / 2 < r then f + 1 else if even f then f else f + 1)"

definition round32 :: "real \<Rightarrow> real" where
  "round32 x =
     (if x = 0 then 0
      else (let e = \<lfloor>log 2 \<bar>x\<bar>\<rfloor>
            in of_int (rne (x * pow2 (23 - e))) * pow2 (e - 23)))"

definition fmul :: "real \<Rightarrow> real \<Rightarrow> real" where
  "fmul x y = round32 (x * y)"

definition fsub :: "real \<Rightarrow> real \<Rightarrow> real" where
  "fsub x y = round32 (x - y)"

definition fadd :: "real \<Rightarrow> real \<Rightarrow> real" where
  "fadd x y = round32 (x + y)"

subsection \<open>Engine vectors and mathematics\<close>

text \<open>
  \<^verbatim>\<open>vector\<close> is the engine's triple of floats, built by \<^verbatim>\<open>Vector(x, y, z)\<close> and
  indexed by \<^verbatim>\<open>v[0]\<close>, \<^verbatim>\<open>v[1]\<close>, \<^verbatim>\<open>v[2]\<close>. The scripts only use the constant
  indices 0, 1 and 2. \<open>vsub\<close> is the difference of two vectors, each component rounded.
\<close>

datatype vector = Vector real real real

fun vget :: "vector \<Rightarrow> nat \<Rightarrow> real" where
  "vget (Vector a b c) i = (if i = 0 then a else if i = 1 then b else c)"

fun vset :: "vector \<Rightarrow> nat \<Rightarrow> real \<Rightarrow> vector" where
  "vset (Vector a b c) i r =
     (if i = 0 then Vector r b c else if i = 1 then Vector a r c else Vector a b r)"

fun vsub :: "vector \<Rightarrow> vector \<Rightarrow> vector" where
  "vsub (Vector a b c) (Vector a' b' c') =
     Vector (round32 (a - a')) (round32 (b - b')) (round32 (c - c'))"

text \<open>
  The native functions of the engine are modelled as the mathematical function followed
  by one rounding: \<^verbatim>\<open>vector.Dot\<close>, \<^verbatim>\<open>Math.Sin\<close>, \<^verbatim>\<open>Math.Cos\<close>, \<^verbatim>\<open>Math.Atan2\<close>, the
  components \<^verbatim>\<open>Normalize\<close> leaves, and the constants \<^verbatim>\<open>Math.DEG2RAD\<close> and
  \<^verbatim>\<open>Math.RAD2DEG\<close>. \<^verbatim>\<open>vector.Distance\<close> is only compared with a range and fed to an
  intensity formula; it is written exactly.
\<close>

fun Dot :: "vector \<Rightarrow> vector \<Rightarrow> real" where
  "Dot (Vector a b c) (Vector a' b' c') = round32 (a * a' + b * b' + c * c')"

fun Length :: "vector \<Rightarrow> real" where
  "Length (Vector a b c) = sqrt (a * a + b * b + c * c)"

fun Distance :: "vector \<Rightarrow> vector \<Rightarrow> real" where
  "Distance (Vector a b c) (Vector a' b' c') = Length (Vector (a - a') (b - b') (c - c'))"

text \<open>
  \<^verbatim>\<open>v.Normalize()\<close> is a native method: it scales \<open>v\<close> to unit length in place. What it
  leaves in a vector of length zero is not fixed by anything in the scripts, so that
  vector is the parameter \<open>nz\<close> of the model; every function that normalises carries it.
\<close>

fun Normalize :: "vector \<Rightarrow> vector \<Rightarrow> vector" where
  "Normalize nz (Vector a b c) =
     (let l = Length (Vector a b c)
      in if l = 0 then nz else Vector (round32 (a / l)) (round32 (b / l)) (round32 (c / l)))"

definition DEG2RAD :: real where
  "DEG2RAD = round32 (pi / 180)"

definition RAD2DEG :: real where
  "RAD2DEG = round32 (180 / pi)"

definition Sin :: "real \<Rightarrow> real" where
  "Sin x = round32 (sin x)"

definition Cos :: "real \<Rightarrow> real" where
  "Cos x = round32 (cos x)"

text \<open>
  \<open>atan2 y x\<close> is the two-argument arc tangent: the angle of the point \<open>(x, y)\<close> in
  \<open>(-\<pi>, \<pi>]\<close>, and 0 at the origin. \<^verbatim>\<open>Math.Atan2(y, x)\<close> is its rounded value.
\<close>

definition atan2 :: "real \<Rightarrow> real \<Rightarrow> real" where
  "atan2 y x =
     (if 0 < x then arctan (y / x)
      else if x < 0 then (if 0 \<le> y then arctan (y / x) + pi else arctan (y / x) - pi)
      else if 0 < y then pi / 2
      else if y < 0 then - (pi / 2)
      else 0)"

definition Atan2 :: "real \<Rightarrow> real \<Rightarrow> real" where
  "Atan2 y x = round32 (atan2 y x)"

text \<open>\<^verbatim>\<open>Math.Clamp(value, min, max)\<close>.\<close>

definition Clamp :: "real \<Rightarrow> real \<Rightarrow> real \<Rightarrow> real" where
  "Clamp v lo hi = (if v < lo then lo else if hi < v then hi else v)"

subsection \<open>Strings\<close>

text \<open>
  \<^verbatim>\<open>string.Format(template, a1, a2, ...)\<close> replaces \<^verbatim>\<open>%1\<close>, \<^verbatim>\<open>%2\<close>, ... in the
  template by the arguments. The scripts call it with string arguments or with an
  \<^verbatim>\<open>int\<close>, which is passed here already converted. A placeholder that has no
  argument does not occur in the scripts; the model leaves it as it is.
\<close>

fun Format :: "string \<Rightarrow> string list \<Rightarrow> string" where
  "Format (c # d # cs) args =
     (let k = of_char d - (49::nat)
      in if c = CHR ''%'' \<and> (49::nat) \<le> of_char d \<and> of_char d \<le> (57::nat) \<and> k < length args
         then args ! k @ Format cs args
         else c # Format (d # cs) args)"
| "Format cs args = cs"

text \<open>
  \<^verbatim>\<open>int.ToString()\<close> is native; it is modelled as the decimal numeral with a leading
  minus sign for a negative value. \<^verbatim>\<open>float.ToString()\<close> is native as well, and its
  format is not fixed by the scripts: it is the parameter \<open>fts\<close> of the functions that
  print a float.
\<close>

definition digit :: "nat \<Rightarrow> char" where
  "digit n = ''0123456789'' ! n"

fun nat_ToString :: "nat \<Rightarrow> string" where
  "nat_ToString n =
     (if n < 10 then [digit n] else nat_ToString (n div 10) @ [digit (n mod 10)])"

definition int_ToString :: "int \<Rightarrow> string" where
  "int_ToString i = (if i < 0 then CHR ''-'' # nat_ToString (nat (- i)) else nat_ToString (nat i))"

subsection \<open>Entities and the game\<close>

text \<open>
  An \<^verbatim>\<open>IEntity\<close> reference is either null or an entity; entities are compared by
  identity, which the field \<open>ent_id\<close> stands for. A controlled entity may carry a
  \<^verbatim>\<open>CompartmentAccessComponent\<close>, which names the vehicle it sits in (by identity) and
  the type of its compartment slot.
\<close>

datatype ECompartmentType = CARGO | PILOT | TURRET

record CompartmentAccessComponent =
  GetVehicle :: "nat option"
  GetCompartment :: "ECompartmentType option"

record IEntity =
  ent_id :: nat
  GetOrigin :: vector
  GetYawPitchRoll :: vector
  FindCompartmentAccess :: "CompartmentAccessComponent option"

record PlayerController =
  GetControlledEntity :: "IEntity option"

text \<open>What a handler reads from \<^verbatim>\<open>GetGame()\<close>: the player controller and the time.\<close>

record Game =
  GetPlayerController :: "PlayerController option"
  GetTime :: real

text \<open>
  A call of \<^verbatim>\<open>ThirdSpaceVest_SendEvent(eventType, angle, damage, intensity)\<close>, with the
  defaults \<open>angle = 0\<close>, \<open>damage = 0\<close>, \<open>intensity = 0\<close> filled in. A handler is
  modelled by the list of the calls it makes, in order.
\<close>

record event =
  e_eventType :: string
  e_angle :: real
  e_damage :: int
  e_intensity :: real

subsection \<open>ThirdSpaceTcpClient.c\<close>

text \<open>
  The static fields of \<^verbatim>\<open>ThirdSpaceTcpClient\<close>. The class holds no socket and no queue:
  the TCP send of \<^verbatim>\<open>SendEvent\<close> and the connection attempt of \<^verbatim>\<open>TryConnect\<close> are
  comments marked TODO. What the functions do is print, so each returns the lines it
  prints beside the new state.
\<close>

record TcpClient =
  s_bConnected :: bool
  s_fLastReconnectAttempt :: real

definition DAEMON_HOST :: string where
  "DAEMON_HOST = ''127.0.0.1''"

definition DAEMON_PORT :: int where
  "DAEMON_PORT = 5050"

definition RECONNECT_INTERVAL :: real where
  "RECONNECT_INTERVAL = 5"

definition TcpClient_init :: TcpClient where
  "TcpClient_init = \<lparr>s_bConnected = False, s_fLastReconnectAttempt = 0\<rparr>"

definition BuildEventJson :: "(real \<Rightarrow> string) \<Rightarrow> string \<Rightarrow> real \<Rightarrow> int \<Rightarrow> real \<Rightarrow> string" where
  \<open>BuildEventJson fts eventType angle damage intensity =
     (let json = ''{'';
          json = json @ ''"cmd":"armareforger_event",'';
          json = json @ Format ''"event":"%1",'' [eventType];
          json = json @ Format ''"angle":%1,'' [fts angle];
          json = json @ Format ''"damage":%1'' [int_ToString damage];
          json = (if 0 < intensity
                  then json @ Format '',"intensity":%1'' [fts intensity]
                  else json);
          json = json @ ''}''
      in json)\<close>

definition SendEvent ::
  "(real \<Rightarrow> string) \<Rightarrow> TcpClient \<Rightarrow> string \<Rightarrow> real \<Rightarrow> int \<Rightarrow> real \<Rightarrow> TcpClient \<times> string list" where
  "SendEvent fts s eventType angle damage intensity =
     (let json = BuildEventJson fts eventType angle damage intensity
      in (s, [Format ''[ThirdSpaceVest] Sending event: %1'' [json]]))"

definition IsConnected :: "TcpClient \<Rightarrow> bool" where
  "IsConnected s = s_bConnected s"

definition TryConnect :: "TcpClient \<Rightarrow> bool \<times> TcpClient \<times> string list" where
  "TryConnect s =
     (let out = [''[ThirdSpaceVest] Attempting to connect to daemon...''];
          s = s\<lparr>s_bConnected := True\<rparr>;
          out = (if s_bConnected s
                 then out @ [Format ''[ThirdSpaceVest] Connected to daemon at %1:%2''
                               [DAEMON_HOST, int_ToString DAEMON_PORT]]
                 else out @ [''[ThirdSpaceVest] Failed to connect to daemon''])
      in (s_bConnected s, s, out))"

definition Disconnect :: "TcpClient \<Rightarrow> TcpClient \<times> string list" where
  "Disconnect s = (s\<lparr>s_bConnected := False\<rparr>, [''[ThirdSpaceVest] Disconnected from daemon''])"

subsection \<open>ThirdSpaceVestMod.c\<close>

text \<open>The global helper forwards its arguments to \<^verbatim>\<open>ThirdSpaceTcpClient.SendEvent\<close>.\<close>

definition ThirdSpaceVest_SendEvent ::
  "(real \<Rightarrow> string) \<Rightarrow> TcpClient \<Rightarrow> event \<Rightarrow> TcpClient \<times> string list" where
  "ThirdSpaceVest_SendEvent fts s e =
     SendEvent fts s (e_eventType e) (e_angle e) (e_damage e) (e_intensity e)"

subsection \<open>ThirdSpacePlayerDamageHandler.c\<close>

text \<open>
  \<^verbatim>\<open>SCR_CharacterDamageManagerComponent\<close>. The component reads its owner
  (\<^verbatim>\<open>GetOwner()\<close>, possibly null) and, after the parent's \<^verbatim>\<open>OnDamage\<close> has run, its
  scaled health.
\<close>

record CharacterDamageManager =
  cdm_GetOwner :: "IEntity option"
  cdm_GetHealthScaled :: real

definition CalculateDamageAngle :: "vector \<Rightarrow> IEntity option \<Rightarrow> vector \<Rightarrow> real" where
  "CalculateDamageAngle nz ownr hitPosition =
     (case ownr of
        None \<Rightarrow> 0
      | Some owner \<Rightarrow>
          (let playerPos = GetOrigin owner;
               playerForward = GetYawPitchRoll owner;
               toHit = vsub hitPosition playerPos;
               toHit = vset toHit 1 0;
               toHit = Normalize nz toHit;
               playerYaw = vget playerForward 0;
               playerDir = Vector (Sin (fmul playerYaw DEG2RAD)) 0 (Cos (fmul playerYaw DEG2RAD));
               dot = Dot playerDir toHit;
               cross = fsub (fmul (vget playerDir 0) (vget toHit 2)) (fmul (vget playerDir 2) (vget toHit 0));
               angle = fmul (Atan2 cross dot) RAD2DEG
           in if angle < 0 then fadd angle 360 else angle))"

text \<open>
  \<^verbatim>\<open>IsLocalPlayer\<close> is written twice, in this component and in
  \<^verbatim>\<open>SCR_AISuppressionComponent\<close>, with the same checks in the same order.
\<close>

definition IsLocalPlayer :: "Game \<Rightarrow> IEntity option \<Rightarrow> bool" where
  "IsLocalPlayer g ownr =
     (case ownr of
        None \<Rightarrow> False
      | Some owner \<Rightarrow>
          (case GetPlayerController g of
             None \<Rightarrow> False
           | Some playerController \<Rightarrow> GetControlledEntity playerController = Some owner))"

definition cdm_OnDamage ::
  "vector \<Rightarrow> Game \<Rightarrow> CharacterDamageManager \<Rightarrow> int \<Rightarrow> vector \<Rightarrow> event list" where
  "cdm_OnDamage nz g c dmg hitPosition =
     (if \<not> IsLocalPlayer g (cdm_GetOwner c) then []
      else if dmg \<le> 0 then []
      else
        (let a = CalculateDamageAngle nz (cdm_GetOwner c) hitPosition;
             sent = [\<lparr>e_eventType = ''player_damage'', e_angle = a, e_damage = dmg, e_intensity = 0\<rparr>]
         in if cdm_GetHealthScaled c \<le> 0
            then sent @ [\<lparr>e_eventType = ''player_death'', e_angle = a, e_damage = dmg, e_intensity = 0\<rparr>]
            else sent))"

definition OnHeal :: "Game \<Rightarrow> CharacterDamageManager \<Rightarrow> real \<Rightarrow> event list" where
  "OnHeal g c healAmount =
     (if \<not> IsLocalPlayer g (cdm_GetOwner c) then []
      else
        (let i = Clamp (healAmount / 10) 1 10
         in [\<lparr>e_eventType = ''player_heal'', e_angle = 0, e_damage = 0, e_intensity = i\<rparr>]))"

subsection \<open>ThirdSpaceEnvironmentHandler.c\<close>

definition CalculateAngleToPosition :: "vector \<Rightarrow> IEntity \<Rightarrow> vector \<Rightarrow> real" where
  "CalculateAngleToPosition nz player targetPos =
     (let playerPos = GetOrigin player;
          playerForward = GetYawPitchRoll player;
          toTarget = vsub targetPos playerPos;
          toTarget = vset toTarget 1 0;
          toTarget = Normalize nz toTarget;
          playerYaw = vget playerForward 0;
          playerDir = Vector (Sin (fmul playerYaw DEG2RAD)) 0 (Cos (fmul playerYaw DEG2RAD));
          dot = Dot playerDir toTarget;
          cross = fsub (fmul (vget playerDir 0) (vget toTarget 2)) (fmul (vget playerDir 2) (vget toTarget 0));
          angle = fmul (Atan2 cross dot) RAD2DEG
      in if angle < 0 then fadd angle 360 else angle)"

definition OnExplosion :: "vector \<Rightarrow> Game \<Rightarrow> vector \<Rightarrow> real \<Rightarrow> real \<Rightarrow> event list" where
  "OnExplosion nz g explosionPos explosionRadius explosionDamage =
     (case GetPlayerController g of
        None \<Rightarrow> []
      | Some playerController \<Rightarrow>
          (case GetControlledEntity playerController of
             None \<Rightarrow> []
           | Some playerEntity \<Rightarrow>
               (let playerPos = GetOrigin playerEntity;
                    distance = Distance explosionPos playerPos
                in if 50 < distance then []
                   else
                     (let i = Clamp (10 - distance / 5) 1 10;
                          a = CalculateAngleToPosition nz playerEntity explosionPos
                      in [\<lparr>e_eventType = ''explosion_nearby'', e_angle = a, e_damage = 0,
                            e_intensity = i\<rparr>]))))"

text \<open>
  \<^verbatim>\<open>SCR_AISuppressionComponent\<close>: its owner and the time of the last feedback, which
  starts at 0.
\<close>

record AISuppressionComponent =
  sup_GetOwner :: "IEntity option"
  m_fLastSuppressionFeedbackTime :: real

definition SUPPRESSION_FEEDBACK_INTERVAL :: real where
  "SUPPRESSION_FEEDBACK_INTERVAL = 5 / 10"

definition new_AISuppressionComponent :: "IEntity option \<Rightarrow> AISuppressionComponent" where
  "new_AISuppressionComponent ownr =
     \<lparr>sup_GetOwner = ownr, m_fLastSuppressionFeedbackTime = 0\<rparr>"

definition CalculateAngleToSource :: "vector \<Rightarrow> IEntity \<Rightarrow> vector \<Rightarrow> real" where
  "CalculateAngleToSource nz player sourcePos =
     (let playerPos = GetOrigin player;
          playerForward = GetYawPitchRoll player;
          toSource = vsub sourcePos playerPos;
          toSource = vset toSource 1 0;
          toSource = Normalize nz toSource;
          playerYaw = vget playerForward 0;
          playerDir = Vector (Sin (fmul playerYaw DEG2RAD)) 0 (Cos (fmul playerYaw DEG2RAD));
          dot = Dot playerDir toSource;
          cross = fsub (fmul (vget playerDir 0) (vget toSource 2)) (fmul (vget playerDir 2) (vget toSource 0));
          angle = fmul (Atan2 cross dot) RAD2DEG
      in if angle < 0 then fadd angle 360 else angle)"

definition OnSuppressionUpdate ::
  "vector \<Rightarrow> Game \<Rightarrow> AISuppressionComponent \<Rightarrow> real \<Rightarrow> vector
     \<Rightarrow> AISuppressionComponent \<times> event list" where
  "OnSuppressionUpdate nz g c suppressionAmount suppressionSource =
     (if \<not> IsLocalPlayer g (sup_GetOwner c) then (c, [])
      else if suppressionAmount < 1 / 10 then (c, [])
      else
        (let currentTime = GetTime g
         in if currentTime - m_fLastSuppressionFeedbackTime c < SUPPRESSION_FEEDBACK_INTERVAL
            then (c, [])
            else
              (let c = c\<lparr>m_fLastSuppressionFeedbackTime := currentTime\<rparr>
               in case sup_GetOwner c of
                    None \<Rightarrow> (c, [])
                  | Some owner \<Rightarrow>
                      (let a = CalculateAngleToSource nz owner suppressionSource;
                           i = Clamp (suppressionAmount * 10) 1 10
                       in (c, [\<lparr>e_eventType = ''player_suppressed'', e_angle = a, e_damage = 0,
                                 e_intensity = i\<rparr>])))))"

subsection \<open>ThirdSpaceVehicleHandler.c\<close>

record VehicleDamageManager =
  vdm_GetOwner :: "IEntity option"
  vdm_GetHealthScaled :: real

definition CalculateHitAngle :: "vector \<Rightarrow> IEntity option \<Rightarrow> vector \<Rightarrow> real" where
  "CalculateHitAngle nz ownr hitPosition =
     (case ownr of
        None \<Rightarrow> 0
      | Some owner \<Rightarrow>
          (let vehiclePos = GetOrigin owner;
               vehicleForward = GetYawPitchRoll owner;
               toHit = vsub hitPosition vehiclePos;
               toHit = vset toHit 1 0;
               toHit = Normalize nz toHit;
               vehicleYaw = vget vehicleForward 0;
               vehicleDir = Vector (Sin (fmul vehicleYaw DEG2RAD)) 0 (Cos (fmul vehicleYaw DEG2RAD));
               dot = Dot vehicleDir toHit;
               cross = fsub (fmul (vget vehicleDir 0) (vget toHit 2)) (fmul (vget vehicleDir 2) (vget toHit 0));
               angle = fmul (Atan2 cross dot) RAD2DEG
           in if angle < 0 then fadd angle 360 else angle))"

definition vdm_IsLocalPlayerInVehicle :: "Game \<Rightarrow> IEntity option \<Rightarrow> bool" where
  "vdm_IsLocalPlayerInVehicle g ownr =
     (case ownr of
        None \<Rightarrow> False
      | Some owner \<Rightarrow>
          (case GetPlayerController g of
             None \<Rightarrow> False
           | Some playerController \<Rightarrow>
               (case GetControlledEntity playerController of
                  None \<Rightarrow> False
                | Some controlledEntity \<Rightarrow>
                    (case FindCompartmentAccess controlledEntity of
                       None \<Rightarrow> False
                     | Some compartment \<Rightarrow> GetVehicle compartment = Some (ent_id owner)))))"

definition vdm_OnDamage ::
  "vector \<Rightarrow> Game \<Rightarrow> VehicleDamageManager \<Rightarrow> int \<Rightarrow> vector \<Rightarrow> event list" where
  "vdm_OnDamage nz g c dmg hitPosition =
     (if \<not> vdm_IsLocalPlayerInVehicle g (vdm_GetOwner c) then []
      else if dmg \<le> 0 then []
      else
        (let a = CalculateHitAngle nz (vdm_GetOwner c) hitPosition;
             sent = [\<lparr>e_eventType = ''vehicle_damage'', e_angle = a, e_damage = dmg, e_intensity = 0\<rparr>]
         in if vdm_GetHealthScaled c \<le> 0
            then sent @ [\<lparr>e_eventType = ''vehicle_explosion'', e_angle = a, e_damage = 100,
                          e_intensity = 0\<rparr>]
            else sent))"

text \<open>
  \<^verbatim>\<open>VehicleWheeledSimulation\<close>: the time of the last collision event, which starts at 0.
  \<^verbatim>\<open>OnContact\<close> receives the vehicle entity from the engine and dereferences it
  without a null check, so it is an entity here.
\<close>

record VehicleWheeledSimulation =
  m_fLastCollisionTime :: real

record Contact =
  GetRelativeNormalVelocityAfter :: real
  GetNormal :: vector

definition COLLISION_COOLDOWN :: real where
  "COLLISION_COOLDOWN = 5 / 10"

definition new_VehicleWheeledSimulation :: VehicleWheeledSimulation where
  "new_VehicleWheeledSimulation = \<lparr>m_fLastCollisionTime = 0\<rparr>"

definition CalculateImpactAngle :: "vector \<Rightarrow> IEntity \<Rightarrow> vector \<Rightarrow> real" where
  "CalculateImpactAngle nz vehicle impactDir =
     (let vehicleForward = GetYawPitchRoll vehicle;
          vehicleYaw = vget vehicleForward 0;
          vehicleDir = Vector (Sin (fmul vehicleYaw DEG2RAD)) 0 (Cos (fmul vehicleYaw DEG2RAD));
          impactDir = vset impactDir 1 0;
          impactDir = Normalize nz impactDir;
          dot = Dot vehicleDir impactDir;
          cross = fsub (fmul (vget vehicleDir 0) (vget impactDir 2)) (fmul (vget vehicleDir 2) (vget impactDir 0));
          angle = fmul (Atan2 cross dot) RAD2DEG
      in if angle < 0 then fadd angle 360 else angle)"

definition vws_IsLocalPlayerInVehicle :: "Game \<Rightarrow> IEntity \<Rightarrow> bool" where
  "vws_IsLocalPlayerInVehicle g vehicleEntity =
     (case GetPlayerController g of
        None \<Rightarrow> False
      | Some playerController \<Rightarrow>
          (case GetControlledEntity playerController of
             None \<Rightarrow> False
           | Some controlledEntity \<Rightarrow>
               (case FindCompartmentAccess controlledEntity of
                  None \<Rightarrow> False
                | Some compartment \<Rightarrow> GetVehicle compartment = Some (ent_id vehicleEntity))))"

definition OnContact ::
  "vector \<Rightarrow> Game \<Rightarrow> VehicleWheeledSimulation \<Rightarrow> IEntity \<Rightarrow> Contact
     \<Rightarrow> VehicleWheeledSimulation \<times> event list" where
  "OnContact nz g c owner contact =
     (if \<not> vws_IsLocalPlayerInVehicle g owner then (c, [])
      else
        (let currentTime = GetTime g
         in if currentTime - m_fLastCollisionTime c < COLLISION_COOLDOWN then (c, [])
            else
              (let c = c\<lparr>m_fLastCollisionTime := currentTime\<rparr>;
                   impactSpeed = GetRelativeNormalVelocityAfter contact;
                   i = Clamp (\<bar>impactSpeed\<bar> / 10) 1 10;
                   impactDir = GetNormal contact;
                   a = CalculateImpactAngle nz owner impactDir
               in (c, [\<lparr>e_eventType = ''vehicle_collision'', e_angle = a, e_damage = 0,
                         e_intensity = i\<rparr>]))))"

text \<open>
  \<^verbatim>\<open>SCR_HelicopterControllerComponent\<close>: its owner, whether the engine is on, and the
  time of the last rotor feedback, which starts at 0.
\<close>

record HelicopterController =
  hc_GetOwner :: "IEntity option"
  IsEngineOn :: bool
  m_fLastRotorFeedbackTime :: real

definition ROTOR_FEEDBACK_INTERVAL :: real where
  "ROTOR_FEEDBACK_INTERVAL = 2 / 10"

definition new_HelicopterController :: "IEntity option \<Rightarrow> bool \<Rightarrow> HelicopterController" where
  "new_HelicopterController ownr on =
     \<lparr>hc_GetOwner = ownr, IsEngineOn = on, m_fLastRotorFeedbackTime = 0\<rparr>"

definition GetRotorIntensity :: "HelicopterController \<Rightarrow> real" where
  "GetRotorIntensity c = 3"

definition IsLocalPlayerPilot :: "Game \<Rightarrow> IEntity option \<Rightarrow> bool" where
  "IsLocalPlayerPilot g ownr =
     (case ownr of
        None \<Rightarrow> False
      | Some owner \<Rightarrow>
          (case GetPlayerController g of
             None \<Rightarrow> False
           | Some playerController \<Rightarrow>
               (case GetControlledEntity playerController of
                  None \<Rightarrow> False
                | Some controlledEntity \<Rightarrow>
                    (case FindCompartmentAccess controlledEntity of
                       None \<Rightarrow> False
                     | Some compartment \<Rightarrow>
                         (case GetCompartment compartment of
                            None \<Rightarrow> False
                          | Some slot \<Rightarrow> slot = PILOT)))))"

definition OnUpdate ::
  "Game \<Rightarrow> HelicopterController \<Rightarrow> real \<Rightarrow> HelicopterController \<times> event list" where
  "OnUpdate g c timeSlice =
     (if \<not> IsLocalPlayerPilot g (hc_GetOwner c) then (c, [])
      else if \<not> IsEngineOn c then (c, [])
      else
        (let currentTime = GetTime g
         in if currentTime - m_fLastRotorFeedbackTime c < ROTOR_FEEDBACK_INTERVAL then (c, [])
            else
              (let c = c\<lparr>m_fLastRotorFeedbackTime := currentTime\<rparr>;
                   i = GetRotorIntensity c
               in (c, [\<lparr>e_eventType = ''helicopter_rotor'', e_angle = 180, e_damage = 0,
                         e_intensity = i\<rparr>]))))"

subsection \<open>Scenarios\<close>

text \<open>
  A component called several times in a row: each call sees the time stamp the one before
  left, and the result says for each call whether it sent an event.
\<close>

fun suppression_run ::
  "vector \<Rightarrow> PlayerController option \<Rightarrow> AISuppressionComponent \<Rightarrow> (real \<times> real \<times> vector) list
     \<Rightarrow> bool list" where
  "suppression_run nz pc c [] = []"
| "suppression_run nz pc c ((t, amount, source) # calls) =
     (let r = OnSuppressionUpdate nz \<lparr>GetPlayerController = pc, GetTime = t\<rparr> c amount source
      in (snd r \<noteq> []) # suppression_run nz pc (fst r) calls)"

fun contact_run ::
  "vector \<Rightarrow> PlayerController option \<Rightarrow> VehicleWheeledSimulation \<Rightarrow> IEntity
     \<Rightarrow> (real \<times> Contact) list \<Rightarrow> bool list" where
  "contact_run nz pc c owner [] = []"
| "contact_run nz pc c owner ((t, contact) # calls) =
     (let r = OnContact nz \<lparr>GetPlayerController = pc, GetTime = t\<rparr> c owner contact
      in (snd r \<noteq> []) # contact_run nz pc (fst r) owner calls)"

text \<open>
  Concrete entities for the examples: a soldier on foot facing along z (yaw 0), a lookout
  facing along negative x (yaw -90), a truck and its driver, a helicopter and its pilot.
\<close>

definition soldier :: IEntity where
  "soldier = \<lparr>ent_id = 1, GetOrigin = Vector 0 0 0, GetYawPitchRoll = Vector 0 0 0,
              FindCompartmentAccess = None\<rparr>"

definition lookout :: IEntity where
  "lookout = \<lparr>ent_id = 6, GetOrigin = Vector 0 0 0, GetYawPitchRoll = Vector (- 90) 0 0,
              FindCompartmentAccess = None\<rparr>"

definition truck :: IEntity where
  "truck = \<lparr>ent_id = 2, GetOrigin = Vector 0 0 0, GetYawPitchRoll = Vector 0 0 0,
            FindCompartmentAccess = None\<rparr>"

definition driver :: IEntity where
  "driver = \<lparr>ent_id = 3, GetOrigin = Vector 0 0 0, GetYawPitchRoll = Vector 0 0 0,
             FindCompartmentAccess = Some \<lparr>GetVehicle = Some 2, GetCompartment = Some PILOT\<rparr>\<rparr>"

definition gunship :: IEntity where
  "gunship = \<lparr>ent_id = 4, GetOrigin = Vector 0 0 0, GetYawPitchRoll = Vector 0 0 0,
              FindCompartmentAccess = None\<rparr>"

definition pilot :: IEntity where
  "pilot = \<lparr>ent_id = 5, GetOrigin = Vector 0 0 0, GetYawPitchRoll = Vector 0 0 0,
            FindCompartmentAccess = Some \<lparr>GetVehicle = Some 4, GetCompartment = Some PILOT\<rparr>\<rparr>"

definition controls :: "IEntity \<Rightarrow> PlayerController option" where
  "controls e = Some \<lparr>GetControlledEntity = Some e\<rparr>"

definition bump :: Contact where
  "bump = \<lparr>GetRelativeNormalVelocityAfter = 20, GetNormal = Vector 0 0 1\<rparr>"

definition origin0 :: vector where
  "origin0 = Vector 0 0 0"

section \<open>Properties\<close>

subsection \<open>Rounding\<close>

lemma pow2_powr: "pow2 e = 2 powr (of_int e)"
  by (simp add: pow2_def powr_int)

lemma pow2_pos: "0 < pow2 e"
  by (simp add: pow2_powr)

lemma pow2_add: "pow2 (a + b) = pow2 a * pow2 b"
  by (simp add: pow2_powr powr_add)

lemma pow2_mono: "a \<le> b \<Longrightarrow> pow2 a \<le> pow2 b"
  by (simp add: pow2_powr)

lemma pow2_less_iff: "pow2 a < pow2 b \<longleftrightarrow> a < b"
  by (simp add: pow2_powr)

lemma pow2_nat: "0 \<le> e \<Longrightarrow> pow2 e = of_int (2 ^ nat e)"
  by (simp add: pow2_def)

lemma rne_of_int: "rne (of_int n) = n"
  by (simp add: rne_def)

lemma rne_ge: "of_int n \<le> y \<Longrightarrow> n \<le> rne y"
proof -
  assume "of_int n \<le> y"
  then have "n \<le> \<lfloor>y\<rfloor>" by (simp add: le_floor_iff)
  then show ?thesis by (simp add: rne_def Let_def)
qed

lemma rne_le: "y \<le> of_int n \<Longrightarrow> rne y \<le> n"
proof -
  assume h: "y \<le> of_int n"
  show ?thesis
  proof (cases "y = of_int n")
    case True
    then show ?thesis by (simp add: rne_of_int)
  next
    case False
    with h have "y < of_int n" by simp
    then have "\<lfloor>y\<rfloor> < n" by (simp add: floor_less_iff)
    then show ?thesis by (simp add: rne_def Let_def)
  qed
qed

lemma rne_minus: "rne (- y) = - rne y"
proof (cases "y = of_int \<lfloor>y\<rfloor>")
  case True
  then obtain n where "y = of_int n" by blast
  then show ?thesis by (simp add: rne_of_int flip: of_int_minus)
next
  case False
  define r where "r = y - of_int \<lfloor>y\<rfloor>"
  have "of_int \<lfloor>y\<rfloor> \<le> y" "y < of_int \<lfloor>y\<rfloor> + 1" by linarith+
  with False have r: "0 < r" "r < 1" unfolding r_def by linarith+
  have f: "\<lfloor>- y\<rfloor> = - \<lfloor>y\<rfloor> - 1"
    using r by (simp add: floor_eq_iff r_def)
  have "- y - of_int (\<lfloor>- y\<rfloor>) = 1 - r" by (simp add: f r_def)
  then show ?thesis
    using r unfolding rne_def Let_def f r_def [symmetric]
    by (auto simp add: r_def)
qed

lemma rne_near_below: "of_int n - 1 / 2 \<le> y \<Longrightarrow> y < of_int n \<Longrightarrow> even n \<Longrightarrow> rne y = n"
proof -
  assume a: "of_int n - 1 / 2 \<le> y" "y < of_int n" "even n"
  have f: "\<lfloor>y\<rfloor> = n - 1" using a by (simp add: floor_eq_iff) 
  have o: "odd (n - 1)" using a(3) by simp
  show ?thesis using a o unfolding rne_def Let_def f by auto
qed

lemma rne_eq: "\<bar>y - of_int n\<bar> < 1 / 2 \<Longrightarrow> rne y = n"
proof -
  assume a: "\<bar>y - of_int n\<bar> < 1 / 2"
  show ?thesis
  proof (cases "of_int n \<le> y")
    case True
    then have f: "\<lfloor>y\<rfloor> = n" using a by (simp add: floor_eq_iff)
    show ?thesis using a True unfolding rne_def Let_def f by auto
  next
    case False
    then have f: "\<lfloor>y\<rfloor> = n - 1" using a by (simp add: floor_eq_iff)
    show ?thesis using a False unfolding rne_def Let_def f by auto
  qed
qed

lemma floor_log2_bounds:
  assumes "x \<noteq> 0"
  shows "pow2 \<lfloor>log 2 \<bar>x\<bar>\<rfloor> \<le> \<bar>x\<bar>" and "\<bar>x\<bar> < pow2 (\<lfloor>log 2 \<bar>x\<bar>\<rfloor> + 1)"
proof -
  have p: "0 < \<bar>x\<bar>" using assms by simp
  have "of_int \<lfloor>log 2 \<bar>x\<bar>\<rfloor> \<le> log 2 \<bar>x\<bar>" by simp
  then have "2 powr (of_int \<lfloor>log 2 \<bar>x\<bar>\<rfloor>) \<le> 2 powr (log 2 \<bar>x\<bar>)" by simp
  then show "pow2 \<lfloor>log 2 \<bar>x\<bar>\<rfloor> \<le> \<bar>x\<bar>" using p by (simp add: pow2_powr)
  have "log 2 \<bar>x\<bar> < of_int (\<lfloor>log 2 \<bar>x\<bar>\<rfloor> + 1)" by simp
  then have "2 powr (log 2 \<bar>x\<bar>) < 2 powr (of_int (\<lfloor>log 2 \<bar>x\<bar>\<rfloor> + 1))"
    by (simp only: powr_less_cancel_iff) 
  then show "\<bar>x\<bar> < pow2 (\<lfloor>log 2 \<bar>x\<bar>\<rfloor> + 1)" using p by (simp add: pow2_powr)
qed

lemma floor_log2_eq:
  assumes "pow2 k \<le> \<bar>x\<bar>" and "\<bar>x\<bar> < pow2 (k + 1)"
  shows "\<lfloor>log 2 \<bar>x\<bar>\<rfloor> = k"
proof -
  have p: "0 < \<bar>x\<bar>" using assms(1) pow2_pos [of k] by linarith
  then have x: "x \<noteq> 0" by auto
  have "pow2 \<lfloor>log 2 \<bar>x\<bar>\<rfloor> < pow2 (k + 1)"
    using floor_log2_bounds(1) [OF x] assms(2) by linarith
  then have a: "\<lfloor>log 2 \<bar>x\<bar>\<rfloor> < k + 1" by (simp add: pow2_less_iff)
  have "pow2 k < pow2 (\<lfloor>log 2 \<bar>x\<bar>\<rfloor> + 1)"
    using floor_log2_bounds(2) [OF x] assms(1) by linarith
  then have "k < \<lfloor>log 2 \<bar>x\<bar>\<rfloor> + 1" by (simp add: pow2_less_iff)
  with a show ?thesis by linarith
qed

lemma round32_0: "round32 0 = 0"
  by (simp add: round32_def)

lemma round32_minus: "round32 (- x) = - round32 x"
  by (simp add: round32_def Let_def rne_minus)

lemma round32_eval:
  assumes "pow2 k \<le> \<bar>x\<bar>" and "\<bar>x\<bar> < pow2 (k + 1)"
  shows "round32 x = of_int (rne (x * pow2 (23 - k))) * pow2 (k - 23)"
proof -
  have p: "0 < \<bar>x\<bar>" using assms(1) pow2_pos [of k] by linarith
  then have x: "x \<noteq> 0" by auto
  show ?thesis using x by (simp add: round32_def Let_def floor_log2_eq [OF assms])
qed

lemma pow2_23: "pow2 23 = 8388608" and pow2_24: "pow2 24 = 16777216"
  by (simp_all add: pow2_def)

lemma round32_pos_bounds:
  assumes "pow2 k \<le> x" and "x < pow2 (k + 1)"
  shows "pow2 k \<le> round32 x" and "round32 x \<le> pow2 (k + 1)"
proof -
  have xp: "0 < x" using assms(1) pow2_pos [of k] by linarith
  then have ax: "\<bar>x\<bar> = x" by simp
  have e: "round32 x = of_int (rne (x * pow2 (23 - k))) * pow2 (k - 23)"
    using round32_eval [of k x] assms ax by simp
  have q: "0 < pow2 (23 - k)" by (rule pow2_pos)
  have "pow2 k * pow2 (23 - k) \<le> x * pow2 (23 - k)"
    using assms(1) q by (simp only: mult_le_cancel_right_pos)
  then have lo: "of_int 8388608 \<le> x * pow2 (23 - k)"
    by (simp add: pow2_add [symmetric] pow2_23)
  have "x * pow2 (23 - k) < pow2 (k + 1) * pow2 (23 - k)"
    using assms(2) q by (simp only: mult_less_cancel_right_pos)
  then have hi: "x * pow2 (23 - k) \<le> of_int 16777216"
    by (simp add: pow2_add [symmetric] pow2_24)
  have r: "0 < pow2 (k - 23)" by (rule pow2_pos)
  have "8388608 \<le> rne (x * pow2 (23 - k))" by (rule rne_ge [OF lo])
  then have "(8388608::real) \<le> of_int (rne (x * pow2 (23 - k)))" by linarith
  then have "8388608 * pow2 (k - 23) \<le> of_int (rne (x * pow2 (23 - k))) * pow2 (k - 23)"
    using r by (simp only: mult_le_cancel_right_pos)
  moreover have "8388608 * pow2 (k - 23) = pow2 k"
    by (simp add: pow2_23 [symmetric] pow2_add [symmetric])
  ultimately show "pow2 k \<le> round32 x" by (simp add: e)
  have "rne (x * pow2 (23 - k)) \<le> 16777216" by (rule rne_le [OF hi])
  then have "of_int (rne (x * pow2 (23 - k))) \<le> (16777216::real)" by linarith
  then have "of_int (rne (x * pow2 (23 - k))) * pow2 (k - 23) \<le> 16777216 * pow2 (k - 23)"
    using r by (simp only: mult_le_cancel_right_pos)
  moreover have "16777216 * pow2 (k - 23) = pow2 (k + 1)"
    by (simp add: pow2_24 [symmetric] pow2_add [symmetric] add.commute)
  ultimately show "round32 x \<le> pow2 (k + 1)" by (simp add: e)
qed

lemma round32_pow2: "round32 (pow2 k) = pow2 k"
proof -
  have a: "\<bar>pow2 k\<bar> = pow2 k" using pow2_pos [of k] by simp
  have b: "pow2 k < pow2 (k + 1)" by (simp add: pow2_less_iff)
  have "round32 (pow2 k) = of_int (rne (pow2 k * pow2 (23 - k))) * pow2 (k - 23)"
    using round32_eval [of k "pow2 k"] a b by simp
  also have "pow2 k * pow2 (23 - k) = of_int 8388608"
    by (simp add: pow2_add [symmetric] pow2_23)
  also have "of_int (rne (of_int 8388608)) * pow2 (k - 23) = pow2 23 * pow2 (k - 23)"
    by (simp only: rne_of_int) (simp add: pow2_23)
  also have "\<dots> = pow2 k" by (simp add: pow2_add [symmetric])
  finally show ?thesis .
qed

lemma round32_pos: "0 < x \<Longrightarrow> 0 < round32 x"
proof -
  assume p: "0 < x"
  then have x: "x \<noteq> 0" by simp
  have "pow2 \<lfloor>log 2 \<bar>x\<bar>\<rfloor> \<le> round32 x"
    using round32_pos_bounds(1) [of "\<lfloor>log 2 \<bar>x\<bar>\<rfloor>" x] floor_log2_bounds [OF x] p by simp
  with pow2_pos [of "\<lfloor>log 2 \<bar>x\<bar>\<rfloor>"] show ?thesis by linarith
qed

lemma round32_neg: "x < 0 \<Longrightarrow> round32 x < 0"
  using round32_pos [of "- x"] by (simp add: round32_minus)

lemma round32_ge: "pow2 k \<le> x \<Longrightarrow> pow2 k \<le> round32 x"
proof -
  assume h: "pow2 k \<le> x"
  have xp: "0 < x" using h pow2_pos [of k] by linarith
  then have x: "x \<noteq> 0" and ax: "\<bar>x\<bar> = x" by simp_all
  define e where "e = \<lfloor>log 2 \<bar>x\<bar>\<rfloor>"
  have b: "pow2 e \<le> x" "x < pow2 (e + 1)" using floor_log2_bounds [OF x] ax by (simp_all add: e_def)
  have "pow2 k < pow2 (e + 1)" using h b(2) by linarith
  then have "k \<le> e" by (simp add: pow2_less_iff)
  then have "pow2 k \<le> pow2 e" by (rule pow2_mono)
  with round32_pos_bounds(1) [OF b] show ?thesis by linarith
qed

lemma round32_le: "0 < x \<Longrightarrow> x \<le> pow2 k \<Longrightarrow> round32 x \<le> pow2 k"
proof -
  assume xp: "0 < x" and h: "x \<le> pow2 k"
  show ?thesis
  proof (cases "x = pow2 k")
    case True
    then show ?thesis by (simp add: round32_pow2)
  next
    case False
    with h have lt: "x < pow2 k" by simp
    from xp have x: "x \<noteq> 0" and ax: "\<bar>x\<bar> = x" by simp_all
    define e where "e = \<lfloor>log 2 \<bar>x\<bar>\<rfloor>"
    have b: "pow2 e \<le> x" "x < pow2 (e + 1)"
      using floor_log2_bounds [OF x] ax by (simp_all add: e_def)
    have "pow2 e < pow2 k" using lt b(1) by linarith
    then have "e + 1 \<le> k" by (simp add: pow2_less_iff)
    then have "pow2 (e + 1) \<le> pow2 k" by (rule pow2_mono)
    with round32_pos_bounds(2) [OF b] show ?thesis by linarith
  qed
qed

lemma round32_nonneg_le: "0 \<le> x \<Longrightarrow> x \<le> pow2 k \<Longrightarrow> 0 \<le> round32 x \<and> round32 x \<le> pow2 k"
proof (cases "x = 0")
  case True
  then show ?thesis using pow2_pos [of k] by (simp add: round32_0)
next
  case False
  assume "0 \<le> x" "x \<le> pow2 k"
  with False have p: "0 < x" by simp
  from round32_pos [OF p] round32_le [OF p \<open>x \<le> pow2 k\<close>] show ?thesis by simp
qed

lemma round32_neg_ge: "x < 0 \<Longrightarrow> - pow2 k \<le> x \<Longrightarrow> - pow2 k \<le> round32 x \<and> round32 x < 0"
  using round32_le [of "- x" k] round32_neg [of x] by (simp add: round32_minus)

lemma round32_abs_le: "\<bar>x\<bar> \<le> pow2 k \<Longrightarrow> \<bar>round32 x\<bar> \<le> pow2 k"
proof -
  assume h: "\<bar>x\<bar> \<le> pow2 k"
  consider "x = 0" | "0 < x" | "x < 0" by linarith
  then show ?thesis
  proof cases
    case 1
    then show ?thesis using pow2_pos [of k] by (simp add: round32_0)
  next
    case 2
    with h round32_le [of x k] round32_pos [of x] show ?thesis by simp
  next
    case 3
    with h round32_neg_ge [of x k] show ?thesis by simp
  qed
qed

lemma round32_wrap_360:
  assumes "- (1 / 65536) \<le> a" and "a < 0"
  shows "round32 (a + 360) = 360"
proof -
  have p8: "pow2 8 = 256" and p9: "pow2 9 = 512" and p15: "pow2 15 = 32768"
    and pm: "pow2 (- 15) = 1 / 32768"
    by (simp_all add: pow2_def)
  have b: "pow2 8 \<le> \<bar>a + 360\<bar>" "\<bar>a + 360\<bar> < pow2 (8 + 1)"
    using assms by (simp_all add: p8 p9)
  have e: "round32 (a + 360) = of_int (rne ((a + 360) * pow2 (23 - 8))) * pow2 (8 - 23)"
    by (rule round32_eval [OF b])
  have "rne ((a + 360) * 32768) = 11796480"
    by (rule rne_near_below) (use assms in simp_all)
  then show ?thesis by (simp add: e p15 pm)
qed

subsection \<open>Bounds on \<open>\<pi>\<close>\<close>

text \<open>
  The sine of two rationals close to \<open>\<pi>/6\<close> is compared with 1/2 through the Maclaurin
  polynomial of degree 11; as the sine is increasing there, this encloses \<open>\<pi>\<close>.
\<close>

lemma sum_upto_12:
  "(\<Sum>m<12. (f :: nat \<Rightarrow> real) m) = f 0 + f 1 + f 2 + f 3 + f 4 + f 5 + f 6 + f 7 + f 8 + f 9 + f 10 + f 11"
  by (simp add: eval_nat_numeral sum.lessThan_Suc)

lemma sin_coeffs:
  "sin_coeff 0 = 0" "sin_coeff 1 = 1" "sin_coeff 2 = 0" "sin_coeff 3 = - 1 / 6"
  "sin_coeff 4 = 0" "sin_coeff 5 = 1 / 120" "sin_coeff 6 = 0" "sin_coeff 7 = - 1 / 5040"
  "sin_coeff 8 = 0" "sin_coeff 9 = 1 / 362880" "sin_coeff 10 = 0"
  "sin_coeff 11 = - 1 / 39916800"
  by (simp_all add: sin_coeff_def fact_numeral)

lemma sin_poly_12:
  "(\<Sum>m<12. sin_coeff m * x ^ m) =
     x - x ^ 3 / 6 + x ^ 5 / 120 - x ^ 7 / 5040 + x ^ 9 / 362880 - x ^ 11 / 39916800"
  unfolding sum_upto_12 sin_coeffs by simp

lemma fact_12: "fact 12 = (479001600 :: real)"
  by (simp add: fact_numeral)

lemma sin_lower: "sin (15707963 / 30000000 :: real) < 1 / 2"
proof -
  define x :: real where "x = 15707963 / 30000000"
  have "sin x \<le> (\<Sum>m<12. sin_coeff m * x ^ m) + inverse (fact 12) * \<bar>x\<bar> ^ 12"
    using Maclaurin_sin_bound [of x 12] by linarith
  also have "\<dots> < 1 / 2"
    unfolding sin_poly_12 fact_12 x_def by (simp add: power_divide divide_simps)
  finally show ?thesis by (simp add: x_def)
qed

lemma sin_upper: "1 / 2 < sin (31415927 / 60000000 :: real)"
proof -
  define x :: real where "x = 31415927 / 60000000"
  have "(\<Sum>m<12. sin_coeff m * x ^ m) - inverse (fact 12) * \<bar>x\<bar> ^ 12 \<le> sin x"
    using Maclaurin_sin_bound [of x 12] by linarith
  moreover have "1 / 2 < (\<Sum>m<12. sin_coeff m * x ^ m) - inverse (fact 12) * \<bar>x\<bar> ^ 12"
    unfolding sin_poly_12 fact_12 x_def by (simp add: power_divide divide_simps)
  ultimately show ?thesis by (simp add: x_def)
qed

lemma pi_lower: "31415926 / 10000000 < pi"
proof (rule ccontr)
  assume "\<not> 31415926 / 10000000 < pi"
  then have a: "pi / 6 \<le> 15707963 / 30000000" by simp
  have "(15707963 / 30000000 :: real) \<le> 1" by simp
  also have "\<dots> \<le> pi / 2" using pi_ge_two by simp
  finally have b: "(15707963 / 30000000 :: real) \<le> pi / 2" .
  have "- (pi / 2) \<le> pi / 6" using pi_gt_zero by linarith
  from sin_monotone_2pi_le [OF this a b] have "1 / 2 \<le> sin (15707963 / 30000000 :: real)"
    by (simp add: sin_30)
  with sin_lower show False by simp
qed

lemma pi_upper: "pi < 31415927 / 10000000"
proof (rule ccontr)
  assume "\<not> pi < 31415927 / 10000000"
  then have a: "31415927 / 60000000 \<le> pi / 6" by simp
  have b: "pi / 6 \<le> pi / 2" using pi_gt_zero by simp
  have "- (pi / 2) \<le> 31415927 / 60000000" using pi_gt_zero by (simp add: order.trans [of _ 0])
  from sin_monotone_2pi_le [OF this a b] have "sin (31415927 / 60000000 :: real) \<le> 1 / 2"
    by (simp add: sin_30)
  with sin_upper show False by simp
qed

lemma arctan_le_self_nonneg: "0 \<le> x \<Longrightarrow> arctan x \<le> x"
proof -
  assume x: "0 \<le> x"
  have "(\<lambda>u. u - arctan u) 0 \<le> (\<lambda>u. u - arctan u) x"
  proof (rule DERIV_nonneg_imp_nondecreasing [OF x])
    fix u :: real
    assume "0 \<le> u" "u \<le> x"
    have "((\<lambda>u. u - arctan u) has_real_derivative (1 - inverse (1 + u\<^sup>2))) (at u)"
      by (auto intro!: derivative_eq_intros)
    moreover have "0 < 1 + u\<^sup>2" by (simp add: add_pos_nonneg)
    then have "0 \<le> 1 - inverse (1 + u\<^sup>2)"
      by (simp add: field_simps)
    ultimately show "\<exists>y. ((\<lambda>u. u - arctan u) has_real_derivative y) (at u) \<and> 0 \<le> y"
      by blast
  qed
  then show ?thesis by simp
qed

lemma arctan_neg_bounds: "v < 0 \<Longrightarrow> v \<le> arctan v \<and> arctan v < 0"
  using arctan_le_self_nonneg [of "- v"] by (simp add: arctan_minus)

subsection \<open>The wrap to 360\<close>

text \<open>
  On exact values the wrap does what its comment says (\<^verbatim>\<open>Normalize to 0-360 range\<close>): the
  arc tangent lies in \<open>(-\<pi>, \<pi>]\<close>, so the angle in degrees lies in \<open>(-180, 180]\<close>, and adding
  360 to a negative angle gives a value below 360.
\<close>

lemma atan2_bounds: "- pi < atan2 y x \<and> atan2 y x \<le> pi"
proof -
  have lo: "- (pi / 2) < arctan (y / x)" and hi: "arctan (y / x) < pi / 2"
    by (rule arctan_lbound, rule arctan_ubound)
  have p: "0 < pi" by (rule pi_gt_zero)
  consider (pos) "0 < x" | (nn) "x < 0" "0 \<le> y" | (np) "x < 0" "y < 0"
    | (zp) "x = 0" "0 < y" | (zn) "x = 0" "y < 0" | (zz) "x = 0" "y = 0"
    by linarith
  then show ?thesis
  proof cases
    case pos
    then have "atan2 y x = arctan (y / x)" by (simp add: atan2_def)
    with lo hi p show ?thesis by linarith
  next
    case nn
    then have "y / x \<le> 0" by (simp add: divide_nonneg_neg)
    then have "arctan (y / x) \<le> 0" by simp
    moreover from nn have "atan2 y x = arctan (y / x) + pi" by (simp add: atan2_def)
    ultimately show ?thesis using lo p by linarith
  next
    case np
    then have "0 < y / x" by (simp add: divide_neg_neg)
    then have "0 < arctan (y / x)" by simp
    moreover from np have "atan2 y x = arctan (y / x) - pi" by (simp add: atan2_def)
    ultimately show ?thesis using hi p by linarith
  next
    case zp
    then have "atan2 y x = pi / 2" by (simp add: atan2_def)
    with p show ?thesis by linarith
  next
    case zn
    then have "atan2 y x = - (pi / 2)" by (simp add: atan2_def)
    with p show ?thesis by linarith
  next
    case zz
    then have "atan2 y x = 0" by (simp add: atan2_def)
    with p show ?thesis by linarith
  qed
qed

lemma exact_wrap_below_360:
  "0 \<le> (if atan2 y x * (180 / pi) < 0 then atan2 y x * (180 / pi) + 360
          else atan2 y x * (180 / pi))
   \<and> (if atan2 y x * (180 / pi) < 0 then atan2 y x * (180 / pi) + 360
          else atan2 y x * (180 / pi)) < 360"
proof -
  have p: "0 < pi" by (rule pi_gt_zero)
  have b: "- pi < atan2 y x" "atan2 y x \<le> pi" using atan2_bounds [of y x] by simp_all
  have "- 180 < atan2 y x * (180 / pi)" using b(1) p by (simp add: field_simps)
  moreover have "atan2 y x * (180 / pi) \<le> 180" using b(2) p by (simp add: field_simps)
  ultimately show ?thesis by (simp split: if_splits)
qed

text \<open>
  In single precision the numbers just below 360 are 1/32768 apart, so a negative angle
  no further from 0 than 1/65536 is wrapped to exactly 360 (\<open>round32_wrap_360\<close>). This
  happens whenever the cross product is negative and tiny while the dot product is about 1.
\<close>

lemma pow2_vals:
  "pow2 0 = 1" "pow2 1 = 2" "pow2 2 = 4" "pow2 5 = 32" "pow2 6 = 64" "pow2 7 = 128"
  "pow2 (- 1) = 1 / 2" "pow2 (- 16) = 1 / 65536" "pow2 (- 22) = 1 / 4194304"
  "pow2 (- 23) = 1 / 8388608" "pow2 (- 25) = 1 / 33554432" "pow2 9 = 512"
  by (simp_all add: pow2_def)

lemma RAD2DEG_bounds: "32 \<le> RAD2DEG" "RAD2DEG \<le> 64"
proof -
  have p: "3 < pi" "pi < 4" using pi_lower pi_upper by linarith+
  have lo: "pow2 5 \<le> 180 / pi" using p by (simp add: pow2_vals field_simps)
  have hi: "180 / pi \<le> pow2 6" using p by (simp add: pow2_vals field_simps)
  have pos: "0 < 180 / pi" using p by simp
  show "32 \<le> RAD2DEG" using round32_ge [OF lo] by (simp add: RAD2DEG_def pow2_vals)
  show "RAD2DEG \<le> 64" using round32_le [OF pos hi] by (simp add: RAD2DEG_def pow2_vals)
qed

lemma wrap_gives_360:
  assumes c: "- (1 / 8388608) \<le> cr" "cr < 0" and d: "1 / 2 \<le> d" "d \<le> 1"
  shows "(if fmul (Atan2 cr d) RAD2DEG < 0 then fadd (fmul (Atan2 cr d) RAD2DEG) 360
          else fmul (Atan2 cr d) RAD2DEG) = 360"
proof -
  have dp: "0 < d" using d by simp
  have q: "cr / d < 0" using c dp by (simp add: divide_neg_pos)
  have "- (1 / 8388608) / (1 / 2) \<le> cr / d"
  proof -
    have "cr / d \<ge> cr / (1 / 2)" using c d dp by (simp add: field_simps) 
    moreover have "cr / (1 / 2) \<ge> - (1 / 8388608) / (1 / 2)" using c by simp
    ultimately show ?thesis by linarith
  qed
  then have ql: "- (1 / 4194304) \<le> cr / d" by simp
  have a: "atan2 cr d = arctan (cr / d)" using dp by (simp add: atan2_def)
  have al: "- pow2 (- 22) \<le> atan2 cr d" and an: "atan2 cr d < 0"
    using arctan_neg_bounds [OF q] ql by (simp_all add: a pow2_vals)
  have A: "- (1 / 4194304) \<le> Atan2 cr d" "Atan2 cr d < 0"
    using round32_neg_ge [OF an al] by (simp_all add: Atan2_def pow2_vals)
  have R: "0 < RAD2DEG" "RAD2DEG \<le> 64" using RAD2DEG_bounds by linarith+
  have pn: "Atan2 cr d * RAD2DEG < 0" using A(2) R(1) by (simp add: mult_neg_pos)
  have "- (1 / 4194304) * 64 \<le> Atan2 cr d * RAD2DEG"
  proof -
    have "Atan2 cr d * RAD2DEG \<ge> Atan2 cr d * 64"
      using A(2) R by (simp add: mult_left_mono_neg)
    moreover have "Atan2 cr d * 64 \<ge> - (1 / 4194304) * 64" using A(1) by simp
    ultimately show ?thesis by linarith
  qed
  then have pl: "- pow2 (- 16) \<le> Atan2 cr d * RAD2DEG" by (simp add: pow2_vals)
  have g: "- (1 / 65536) \<le> fmul (Atan2 cr d) RAD2DEG" "fmul (Atan2 cr d) RAD2DEG < 0"
    using round32_neg_ge [OF pn pl] by (simp_all add: fmul_def pow2_vals)
  show ?thesis using g round32_wrap_360 [OF g] by (simp add: fadd_def)
qed

lemma CalculateDamageAngle_Some:
  assumes n: "Normalize nz (vset (vsub hitPosition (GetOrigin e)) 1 0) = Vector tx ty tz"
    and t: "fmul (vget (GetYawPitchRoll e) 0) DEG2RAD = t"
  shows "CalculateDamageAngle nz (Some e) hitPosition =
     (if fmul (Atan2 (fsub (fmul (Sin t) tz) (fmul (Cos t) tx))
                 (Dot (Vector (Sin t) 0 (Cos t)) (Vector tx ty tz))) RAD2DEG < 0
      then fadd (fmul (Atan2 (fsub (fmul (Sin t) tz) (fmul (Cos t) tx))
                 (Dot (Vector (Sin t) 0 (Cos t)) (Vector tx ty tz))) RAD2DEG) 360
      else fmul (Atan2 (fsub (fmul (Sin t) tz) (fmul (Cos t) tx))
                 (Dot (Vector (Sin t) 0 (Cos t)) (Vector tx ty tz))) RAD2DEG)"
  unfolding CalculateDamageAngle_def option.case Let_def n t by simp

lemma round32_1: "round32 1 = 1"
  using round32_pow2 [of 0] by (simp add: pow2_vals)

lemma Sin_0: "Sin 0 = 0" and Cos_0: "Cos 0 = 1"
  by (simp_all add: Sin_def Cos_def round32_0 round32_1)

text \<open>
  Claim C2 says that the bearing lies in \<open>[0, 360)\<close> for every finite input. For an observer
  at the origin with yaw 0 and a hit at (0.00001, 0, 1000), nearly straight ahead and a
  little to the right, \<^verbatim>\<open>CalculateDamageAngle\<close> returns 360: the angle before the wrap is
  negative and of the order of \<open>10\<^sup>-\<^sup>6\<close> degrees, and \<^verbatim>\<open>angle += 360\<close> rounds to 360.
\<close>

theorem wrap_returns_360:
  "CalculateDamageAngle nz (Some soldier) (Vector (1 / 100000) 0 1000) = 360"
proof -
  define hx where "hx = round32 (1 / 100000)"
  define hz where "hz = round32 1000"
  define l where "l = sqrt (hx * hx + 0 * 0 + hz * hz)"
  have hx: "0 < hx" "hx \<le> 1 / 65536"
    using round32_pos [of "1 / 100000"] round32_le [of "1 / 100000" "- 16"]
    by (simp_all add: hx_def pow2_vals)
  have hz: "512 \<le> hz"
    using round32_ge [of 9 1000] by (simp add: hz_def pow2_vals)
  have l_lo: "hz \<le> l"
  proof -
    have "sqrt (hz * hz) \<le> l" unfolding l_def by (rule real_sqrt_le_mono) simp
    moreover have "sqrt (hz * hz) = \<bar>hz\<bar>" by (simp only: real_sqrt_abs2)
    ultimately show ?thesis using hz by linarith
  qed
  have l_hi: "l \<le> 2 * hz"
  proof -
    have m: "hx * hx \<le> hz * hz" using hx hz by (intro mult_mono) simp_all
    have z: "0 \<le> hz * hz" by simp
    have "hx * hx + 0 * 0 + hz * hz = hx * hx + hz * hz" by simp
    also have "\<dots> \<le> 4 * (hz * hz)" using m z by linarith
    also have "\<dots> = (2 * hz) * (2 * hz)" by simp
    finally have "l \<le> sqrt ((2 * hz) * (2 * hz))" unfolding l_def by (rule real_sqrt_le_mono)
    also have "sqrt ((2 * hz) * (2 * hz)) = \<bar>2 * hz\<bar>" by (simp only: real_sqrt_abs2)
    finally show ?thesis using hz by linarith
  qed
  have lp: "0 < l" using l_lo hz by linarith
  define tx where "tx = round32 (hx / l)"
  define tz where "tz = round32 (hz / l)"
  have v: "vset (vsub (Vector (1 / 100000) 0 1000) (GetOrigin soldier)) 1 0 = Vector hx 0 hz"
    by (simp add: soldier_def hx_def hz_def)
  have n: "Normalize nz (vset (vsub (Vector (1 / 100000) 0 1000) (GetOrigin soldier)) 1 0)
           = Vector tx 0 tz"
    unfolding v using lp hx(1) by (simp add: Let_def l_def tx_def tz_def round32_0)
  have t: "fmul (vget (GetYawPitchRoll soldier) 0) DEG2RAD = 0"
    by (simp add: soldier_def fmul_def round32_0)
  have q1: "0 < hx / l" using hx lp by simp
  have q2: "hx / l \<le> pow2 (- 25)"
  proof -
    have "hx / l \<le> (1 / 65536) / 512"
      using hx hz l_lo lp by (intro frac_le) simp_all
    then show ?thesis by (simp add: pow2_vals)
  qed
  have txb: "0 < tx" "tx \<le> 1 / 33554432"
    using round32_pos [OF q1] round32_le [OF q1 q2] by (simp_all add: tx_def pow2_vals)
  have q3: "pow2 (- 1) \<le> hz / l" using l_hi lp hz by (simp add: pow2_vals field_simps)
  have q4: "hz / l \<le> pow2 0" using l_lo lp by (simp add: pow2_vals)
  have q5: "0 < hz / l" using hz lp by simp
  have tzb: "1 / 2 \<le> tz" "tz \<le> 1"
    using round32_ge [OF q3] round32_le [OF q5 q4] by (simp_all add: tz_def pow2_vals)
  have dot: "Dot (Vector (Sin 0) 0 (Cos 0)) (Vector tx 0 tz) = round32 tz"
    by (simp add: Sin_0 Cos_0)
  have d: "1 / 2 \<le> round32 tz" "round32 tz \<le> 1"
    using round32_ge [of "- 1" tz] round32_le [of tz 0] tzb by (simp_all add: pow2_vals)
  have cross: "fsub (fmul (Sin 0) tz) (fmul (Cos 0) tx) = - round32 (round32 tx)"
    by (simp add: Sin_0 Cos_0 fsub_def fmul_def round32_0 round32_minus)
  have r1: "0 < round32 tx" "round32 tx \<le> 1 / 33554432"
    using round32_pos [of tx] round32_le [of tx "- 25"] txb by (simp_all add: pow2_vals)
  have r2: "0 < round32 (round32 tx)" "round32 (round32 tx) \<le> 1 / 33554432"
    using round32_pos [of "round32 tx"] round32_le [of "round32 tx" "- 25"] r1
    by (simp_all add: pow2_vals)
  have c: "- (1 / 8388608) \<le> - round32 (round32 tx)" "- round32 (round32 tx) < 0"
    using r2 by simp_all
  show ?thesis
    unfolding CalculateDamageAngle_Some [OF n t] dot cross
    by (rule wrap_gives_360 [OF c d])
qed

lemma pow2_more:
  "pow2 (- 6) = 1 / 64" "pow2 (- 5) = 1 / 32" "pow2 29 = 536870912"
  "pow2 (- 29) = 1 / 536870912" "pow2 23 = 8388608" "pow2 (- 23) = 1 / 8388608"
  by (simp_all add: pow2_def)

lemma DEG2RAD_value: "DEG2RAD = 9370165 / 536870912"
proof -
  have p: "31415926 / 10000000 < pi" "pi < 31415927 / 10000000"
    by (rule pi_lower, rule pi_upper)
  have b: "pow2 (- 6) \<le> \<bar>pi / 180\<bar>" "\<bar>pi / 180\<bar> < pow2 (- 6 + 1)"
    using p by (simp_all add: pow2_more)
  define y where "y = pi / 180 * 536870912"
  have y: "y * 180 = pi * 536870912" by (simp add: y_def)
  have "9370165 - 1 / 2 < y" "y < 9370165 + 1 / 2" using p y by linarith+
  then have "\<bar>y - of_int 9370165\<bar> < 1 / 2" by linarith
  then have "rne (pi / 180 * 536870912) = 9370165" unfolding y_def by (rule rne_eq)
  then show ?thesis
    unfolding DEG2RAD_def round32_eval [OF b] by (simp add: pow2_more)
qed

lemma quarter_turn: "fmul (- 90) DEG2RAD = - (13176795 / 8388608)"
proof -
  define x :: real where "x = - 90 * (9370165 / 536870912)"
  have b: "pow2 0 \<le> \<bar>x\<bar>" "\<bar>x\<bar> < pow2 (0 + 1)"
    by (simp_all add: x_def pow2_vals)
  have "\<bar>x * 8388608 - of_int (- 13176795)\<bar> < 1 / 2"
    by (simp add: x_def)
  then have "rne (x * 8388608) = - 13176795" by (rule rne_eq)
  then have "round32 x = - (13176795 / 8388608)"
    unfolding round32_eval [OF b] by (simp add: pow2_more)
  then show ?thesis by (simp add: fmul_def DEG2RAD_value x_def)
qed

lemma past_quarter_turn:
  fixes u :: real
  assumes "u = 13176795 / 8388608"
  shows "0 < u - pi / 2" and "u - pi / 2 \<le> 1 / 8388608"
  using pi_lower pi_upper by (simp_all add: assms) 

lemma Cos_quarter_turn:
  "- (1 / 8388608) \<le> Cos (- (13176795 / 8388608))" "Cos (- (13176795 / 8388608)) < 0"
proof -
  define u :: real where "u = 13176795 / 8388608"
  define v where "v = u - pi / 2"
  have v: "0 < v" "v \<le> 1 / 8388608"
    using past_quarter_turn [OF u_def] by (simp_all add: v_def)
  have "cos u = cos (pi / 2 + v)" by (simp add: v_def)
  also have "\<dots> = - sin v" by (simp add: cos_add)
  finally have c: "cos (- u) = - sin v" by simp
  have "v < pi" using v pi_ge_two by linarith
  then have s1: "0 < sin v" using v(1) by (simp add: sin_gt_zero)
  have s2: "sin v \<le> v" using v(1) by (simp add: sin_x_le_x)
  have n: "cos (- u) < 0" using s1 by (simp add: c del: cos_minus)
  have l: "- pow2 (- 23) \<le> cos (- u)" using s2 v(2) by (simp add: c pow2_more del: cos_minus)
  show "- (1 / 8388608) \<le> Cos (- (13176795 / 8388608))" "Cos (- (13176795 / 8388608)) < 0"
    using round32_neg_ge [OF n l] by (simp_all add: Cos_def u_def pow2_more del: cos_minus)
qed

lemma Sin_quarter_turn:
  "- 1 \<le> Sin (- (13176795 / 8388608))" "Sin (- (13176795 / 8388608)) \<le> - (1 / 2)"
proof -
  define u :: real where "u = 13176795 / 8388608"
  define v where "v = u - pi / 2"
  have v: "0 < v" "v \<le> 1 / 8388608"
    using past_quarter_turn [OF u_def] by (simp_all add: v_def)
  have "sin u = sin (pi / 2 + v)" by (simp add: v_def)
  also have "\<dots> = cos v" by (simp add: sin_add)
  finally have s: "sin u = cos v" .
  have "v \<le> pi / 3" using v pi_ge_two by linarith
  moreover have "pi / 3 \<le> pi" using pi_gt_zero by simp
  ultimately have "cos (pi / 3) \<le> cos v"
    using v(1) by (intro cos_monotone_0_pi_le) simp_all
  then have lo: "pow2 (- 1) \<le> sin u" by (simp add: s cos_60 pow2_vals)
  have hi: "sin u \<le> pow2 0" by (simp add: pow2_vals)
  have pos: "0 < sin u" using lo by (simp add: pow2_vals)
  have "1 / 2 \<le> round32 (sin u)" "round32 (sin u) \<le> 1"
    using round32_ge [OF lo] round32_le [OF pos hi] by (simp_all add: pow2_vals)
  then show "- 1 \<le> Sin (- (13176795 / 8388608))" "Sin (- (13176795 / 8388608)) \<le> - (1 / 2)"
    by (simp_all add: Sin_def u_def round32_minus)
qed

lemma round32_neg_1: "round32 (- 1) = - 1"
  by (simp add: round32_minus round32_1)

text \<open>
  Claim C7 says that a target straight ahead has a bearing within 0.001 of 0, for every
  yaw. For an observer at the origin with yaw -90, who faces along negative x, and a
  target at (-5, 0, 0), \<^verbatim>\<open>CalculateDamageAngle\<close> returns 360: the yaw in radians is rounded
  to a number slightly beyond a quarter turn, its cosine is negative and of the order of
  \<open>10\<^sup>-\<^sup>8\<close>, the cross product inherits that sign, and the wrap rounds to 360.
\<close>

theorem front_hit_returns_360:
  "CalculateDamageAngle nz (Some lookout) (Vector (- 5) 0 0) = 360"
proof -
  define h where "h = round32 (- 5)"
  have h: "h < 0" using round32_neg [of "- 5"] by (simp add: h_def)
  have v: "vset (vsub (Vector (- 5) 0 0) (GetOrigin lookout)) 1 0 = Vector h 0 0"
    by (simp add: lookout_def h_def round32_0)
  have l: "sqrt (h * h + 0 * 0 + 0 * 0) = - h" using h by simp
  have n: "Normalize nz (vset (vsub (Vector (- 5) 0 0) (GetOrigin lookout)) 1 0)
           = Vector (- 1) 0 0"
    unfolding v using h by (simp add: Let_def round32_0 round32_neg_1)
  have t: "fmul (vget (GetYawPitchRoll lookout) 0) DEG2RAD = - (13176795 / 8388608)"
    by (simp add: lookout_def quarter_turn)
  define s where "s = Sin (- (13176795 / 8388608))"
  define c where "c = Cos (- (13176795 / 8388608))"
  have s: "- 1 \<le> s" "s \<le> - (1 / 2)" using Sin_quarter_turn by (simp_all add: s_def)
  have c: "- (1 / 8388608) \<le> c" "c < 0" using Cos_quarter_turn by (simp_all add: c_def)
  have dot: "Dot (Vector s 0 c) (Vector (- 1) 0 0) = round32 (- s)" by simp
  have d: "1 / 2 \<le> round32 (- s)" "round32 (- s) \<le> 1"
    using round32_ge [of "- 1" "- s"] round32_le [of "- s" 0] s by (simp_all add: pow2_vals)
  have cross: "fsub (fmul s 0) (fmul c (- 1)) = - round32 (round32 (- c))"
    by (simp add: fsub_def fmul_def round32_0 round32_minus)
  have r1: "0 < round32 (- c)" "round32 (- c) \<le> 1 / 8388608"
    using round32_pos [of "- c"] round32_le [of "- c" "- 23"] c by (simp_all add: pow2_more)
  have r2: "0 < round32 (round32 (- c))" "round32 (round32 (- c)) \<le> 1 / 8388608"
    using round32_pos [of "round32 (- c)"] round32_le [of "round32 (- c)" "- 23"] r1
    by (simp_all add: pow2_more)
  have cr: "- (1 / 8388608) \<le> - round32 (round32 (- c))" "- round32 (round32 (- c)) < 0"
    using r2 by simp_all
  show ?thesis
    unfolding CalculateDamageAngle_Some [OF n t] s_def [symmetric] c_def [symmetric] dot cross
    by (rule wrap_gives_360 [OF cr d])
qed

subsection \<open>Zero horizontal distance\<close>







subsection \<open>The throttled handlers\<close>

lemma OnSuppressionUpdate_gate:
  assumes "IsLocalPlayer g (sup_GetOwner c)" and "1 / 10 \<le> amount"
  shows "snd (OnSuppressionUpdate nz g c amount source) \<noteq> []
           \<longleftrightarrow> SUPPRESSION_FEEDBACK_INTERVAL \<le> GetTime g - m_fLastSuppressionFeedbackTime c"
    and "fst (OnSuppressionUpdate nz g c amount source) =
           (if SUPPRESSION_FEEDBACK_INTERVAL \<le> GetTime g - m_fLastSuppressionFeedbackTime c
            then c\<lparr>m_fLastSuppressionFeedbackTime := GetTime g\<rparr> else c)"
  using assms
  by (auto simp add: OnSuppressionUpdate_def Let_def IsLocalPlayer_def split: option.splits)

lemma OnContact_gate:
  assumes "vws_IsLocalPlayerInVehicle g owner"
  shows "snd (OnContact nz g c owner contact) \<noteq> []
           \<longleftrightarrow> COLLISION_COOLDOWN \<le> GetTime g - m_fLastCollisionTime c"
    and "fst (OnContact nz g c owner contact) =
           (if COLLISION_COOLDOWN \<le> GetTime g - m_fLastCollisionTime c
            then c\<lparr>m_fLastCollisionTime := GetTime g\<rparr> else c)"
  using assms by (auto simp add: OnContact_def Let_def)

lemma OnUpdate_gate:
  assumes "IsLocalPlayerPilot g (hc_GetOwner c)" and "IsEngineOn c"
  shows "snd (OnUpdate g c timeSlice) \<noteq> []
           \<longleftrightarrow> ROTOR_FEEDBACK_INTERVAL \<le> GetTime g - m_fLastRotorFeedbackTime c"
    and "fst (OnUpdate g c timeSlice) =
           (if ROTOR_FEEDBACK_INTERVAL \<le> GetTime g - m_fLastRotorFeedbackTime c
            then c\<lparr>m_fLastRotorFeedbackTime := GetTime g\<rparr> else c)"
  using assms by (auto simp add: OnUpdate_def Let_def)




lemma suppression_run3:
  assumes lp: "\<forall>t. IsLocalPlayer \<lparr>GetPlayerController = pc, GetTime = t\<rparr> ownr"
    and a: "1 / 10 \<le> a1" "1 / 10 \<le> a2" "1 / 10 \<le> a3"
  shows "suppression_run nz pc (new_AISuppressionComponent ownr)
           [(0, a1, s1), (3 / 10, a2, s2), (6 / 10, a3, s3)] = [False, False, True]"
    and "1 / 2 \<le> t0 \<Longrightarrow>
         suppression_run nz pc (new_AISuppressionComponent ownr)
           [(t0, a1, s1), (t0 + 3 / 10, a2, s2), (t0 + 6 / 10, a3, s3)] = [True, False, True]"
  using lp a
  by (simp_all add: Let_def OnSuppressionUpdate_gate new_AISuppressionComponent_def
        SUPPRESSION_FEEDBACK_INTERVAL_def)

lemma contact_run3:
  assumes lp: "\<forall>t. vws_IsLocalPlayerInVehicle \<lparr>GetPlayerController = pc, GetTime = t\<rparr> owner"
  shows "contact_run nz pc new_VehicleWheeledSimulation owner
           [(0, k1), (3 / 10, k2), (6 / 10, k3)] = [False, False, True]"
    and "1 / 2 \<le> t0 \<Longrightarrow>
         contact_run nz pc new_VehicleWheeledSimulation owner
           [(t0, k1), (t0 + 3 / 10, k2), (t0 + 6 / 10, k3)] = [True, False, True]"
  using lp
  by (simp_all add: Let_def OnContact_gate new_VehicleWheeledSimulation_def
        COLLISION_COOLDOWN_def)

lemma soldier_is_local:
  "IsLocalPlayer \<lparr>GetPlayerController = controls soldier, GetTime = t\<rparr> (Some soldier)"
  by (simp add: IsLocalPlayer_def controls_def)

lemma driver_in_truck:
  "vws_IsLocalPlayerInVehicle \<lparr>GetPlayerController = controls driver, GetTime = t\<rparr> truck"
  by (simp add: vws_IsLocalPlayerInVehicle_def controls_def driver_def truck_def)

lemma driver_in_truck_vdm:
  "vdm_IsLocalPlayerInVehicle \<lparr>GetPlayerController = controls driver, GetTime = t\<rparr> (Some truck)"
  by (simp add: vdm_IsLocalPlayerInVehicle_def controls_def driver_def truck_def)

lemma pilot_in_gunship:
  "IsLocalPlayerPilot \<lparr>GetPlayerController = controls pilot, GetTime = t\<rparr> (Some gunship)"
  by (simp add: IsLocalPlayerPilot_def controls_def pilot_def)



text \<open>
  Claim C3, as stated: with the interval 0.5, three checks of one category at the times
  0.0, 0.3 and 0.6, starting from the initial state, emit, suppress, emit. The time stamps
  start at 0, so the check at time 0.0 finds 0.0 - 0 below the interval and suppresses:
  the claim fails for the suppression handler and for the collision handler.
\<close>

theorem debounce_three_checks_counterexample:
  "suppression_run origin0 (controls soldier) (new_AISuppressionComponent (Some soldier))
     [(0, 1, origin0), (3 / 10, 1, origin0), (6 / 10, 1, origin0)] \<noteq> [True, False, True]
   \<and> contact_run origin0 (controls driver) new_VehicleWheeledSimulation truck
     [(0, bump), (3 / 10, bump), (6 / 10, bump)] \<noteq> [True, False, True]"
proof -
  have "suppression_run origin0 (controls soldier) (new_AISuppressionComponent (Some soldier))
     [(0, 1, origin0), (3 / 10, 1, origin0), (6 / 10, 1, origin0)] = [False, False, True]"
    by (rule suppression_run3(1)) (simp_all add: soldier_is_local)
  moreover have "contact_run origin0 (controls driver) new_VehicleWheeledSimulation truck
     [(0, bump), (3 / 10, bump), (6 / 10, bump)] = [False, False, True]"
    by (rule contact_run3(1)) (simp add: driver_in_truck)
  ultimately show ?thesis by simp
qed

text \<open>
  Claim C3, amended. For a component of the local player in its initial state (time stamp
  0) and the interval 0.5: checks at 0.0, 0.3 and 0.6 suppress, suppress and emit; checks
  at \<open>t0\<close>, \<open>t0 + 0.3\<close> and \<open>t0 + 0.6\<close> with \<open>t0 \<ge> 0.5\<close> emit, suppress and
  emit. Both hold for \<^verbatim>\<open>OnSuppressionUpdate\<close> (suppression amounts at least 0.1) and
  for \<^verbatim>\<open>OnContact\<close>.
\<close>

theorem debounce_three_checks:
  "(\<forall>t. IsLocalPlayer \<lparr>GetPlayerController = pc, GetTime = t\<rparr> ownr) \<and>
   1 / 10 \<le> a1 \<and> 1 / 10 \<le> a2 \<and> 1 / 10 \<le> a3 \<and>
   (\<forall>t. vws_IsLocalPlayerInVehicle \<lparr>GetPlayerController = pc', GetTime = t\<rparr> owner) \<Longrightarrow>
   suppression_run nz pc (new_AISuppressionComponent ownr)
       [(0, a1, s1), (3 / 10, a2, s2), (6 / 10, a3, s3)] = [False, False, True]
   \<and> contact_run nz pc' new_VehicleWheeledSimulation owner
       [(0, k1), (3 / 10, k2), (6 / 10, k3)] = [False, False, True]
   \<and> (1 / 2 \<le> t0 \<longrightarrow>
        suppression_run nz pc (new_AISuppressionComponent ownr)
          [(t0, a1, s1), (t0 + 3 / 10, a2, s2), (t0 + 6 / 10, a3, s3)] = [True, False, True]
        \<and> contact_run nz pc' new_VehicleWheeledSimulation owner
          [(t0, k1), (t0 + 3 / 10, k2), (t0 + 6 / 10, k3)] = [True, False, True])"
proof -
  assume h: "(\<forall>t. IsLocalPlayer \<lparr>GetPlayerController = pc, GetTime = t\<rparr> ownr) \<and>
   1 / 10 \<le> a1 \<and> 1 / 10 \<le> a2 \<and> 1 / 10 \<le> a3 \<and>
   (\<forall>t. vws_IsLocalPlayerInVehicle \<lparr>GetPlayerController = pc', GetTime = t\<rparr> owner)"
  then have lp: "\<forall>t. IsLocalPlayer \<lparr>GetPlayerController = pc, GetTime = t\<rparr> ownr"
    and a: "1 / 10 \<le> a1" "1 / 10 \<le> a2" "1 / 10 \<le> a3"
    and lv: "\<forall>t. vws_IsLocalPlayerInVehicle \<lparr>GetPlayerController = pc', GetTime = t\<rparr> owner"
    by simp_all
  note s0 = suppression_run3(1) [OF lp a]
  note s1 = suppression_run3(2) [OF lp a]
  note c0 = contact_run3(1) [OF lv]
  note c1 = contact_run3(2) [OF lv]
  show ?thesis
    by (intro conjI impI) (rule s0, rule c0, erule s1, erule c1)
qed

theorem debounce_three_checks_witness:
  "((\<forall>t. IsLocalPlayer \<lparr>GetPlayerController = controls soldier, GetTime = t\<rparr> (Some soldier)) \<and>
    (1::real) / 10 \<le> 1 \<and>
    (\<forall>t. vws_IsLocalPlayerInVehicle \<lparr>GetPlayerController = controls driver, GetTime = t\<rparr> truck))
   \<and> suppression_run origin0 (controls soldier) (new_AISuppressionComponent (Some soldier))
       [(0, 1, origin0), (3 / 10, 1, origin0), (6 / 10, 1, origin0)] = [False, False, True]
   \<and> contact_run origin0 (controls driver) new_VehicleWheeledSimulation truck
       [(0, bump), (3 / 10, bump), (6 / 10, bump)] = [False, False, True]
   \<and> (1::real) / 2 \<le> 1
   \<and> suppression_run origin0 (controls soldier) (new_AISuppressionComponent (Some soldier))
       [(1, 1, origin0), (13 / 10, 1, origin0), (16 / 10, 1, origin0)] = [True, False, True]
   \<and> contact_run origin0 (controls driver) new_VehicleWheeledSimulation truck
       [(1, bump), (13 / 10, bump), (16 / 10, bump)] = [True, False, True]"
  using debounce_three_checks [where pc = "controls soldier" and ownr = "Some soldier"
      and ?a1.0 = 1 and ?a2.0 = 1 and ?a3.0 = 1 and pc' = "controls driver" and owner = truck
      and nz = origin0 and ?s1.0 = origin0 and ?s2.0 = origin0 and ?s3.0 = origin0
      and ?k1.0 = bump and ?k2.0 = bump and ?k3.0 = bump and ?t0.0 = 1]
  by (simp add: soldier_is_local driver_in_truck)

text \<open>
  Claim C4, as stated: the first check of a category emits, whenever the first event
  arrives. A first suppression event at time 0.3 is not sent.
\<close>

theorem first_check_counterexample:
  "snd (OnSuppressionUpdate origin0 \<lparr>GetPlayerController = controls soldier, GetTime = 3 / 10\<rparr>
          (new_AISuppressionComponent (Some soldier)) 1 origin0) = []"
  by (simp add: OnSuppressionUpdate_def Let_def soldier_is_local new_AISuppressionComponent_def
        SUPPRESSION_FEEDBACK_INTERVAL_def)

text \<open>
  Claim C4, amended. The first check of a fresh component, whose time stamp is 0, emits
  exactly when the event arrives no earlier than the interval of its category: 0.5 for
  suppression and collisions, 0.2 for rotor feedback. (The other gates are open: the
  component belongs to the local player, the suppression amount is at least 0.1, the
  helicopter's engine is on.)
\<close>

theorem first_check_emits_iff:
  "(IsLocalPlayer g ownr \<and> 1 / 10 \<le> amount \<longrightarrow>
      (snd (OnSuppressionUpdate nz g (new_AISuppressionComponent ownr) amount source) \<noteq> [])
        = (SUPPRESSION_FEEDBACK_INTERVAL \<le> GetTime g))
   \<and> (vws_IsLocalPlayerInVehicle g owner \<longrightarrow>
      (snd (OnContact nz g new_VehicleWheeledSimulation owner contact) \<noteq> [])
        = (COLLISION_COOLDOWN \<le> GetTime g))
   \<and> (IsLocalPlayerPilot g ownr' \<longrightarrow>
      (snd (OnUpdate g (new_HelicopterController ownr' True) timeSlice) \<noteq> [])
        = (ROTOR_FEEDBACK_INTERVAL \<le> GetTime g))"
  by (simp add: OnSuppressionUpdate_gate OnContact_gate OnUpdate_gate
        new_AISuppressionComponent_def new_VehicleWheeledSimulation_def
        new_HelicopterController_def)

theorem first_check_emits_iff_witness:
  "(IsLocalPlayer \<lparr>GetPlayerController = controls soldier, GetTime = 1\<rparr> (Some soldier)
      \<and> (1::real) / 10 \<le> 1)
   \<and> snd (OnSuppressionUpdate origin0 \<lparr>GetPlayerController = controls soldier, GetTime = 1\<rparr>
            (new_AISuppressionComponent (Some soldier)) 1 origin0) \<noteq> []
   \<and> vws_IsLocalPlayerInVehicle \<lparr>GetPlayerController = controls driver, GetTime = 1\<rparr> truck
   \<and> snd (OnContact origin0 \<lparr>GetPlayerController = controls driver, GetTime = 1\<rparr>
            new_VehicleWheeledSimulation truck bump) \<noteq> []
   \<and> IsLocalPlayerPilot \<lparr>GetPlayerController = controls pilot, GetTime = 1\<rparr> (Some gunship)
   \<and> snd (OnUpdate \<lparr>GetPlayerController = controls pilot, GetTime = 1\<rparr>
            (new_HelicopterController (Some gunship) True) 0) \<noteq> []"
  using first_check_emits_iff [where g = "\<lparr>GetPlayerController = controls soldier, GetTime = 1\<rparr>"
      and ownr = "Some soldier" and amount = 1 and nz = origin0 and source = origin0]
    first_check_emits_iff [where g = "\<lparr>GetPlayerController = controls driver, GetTime = 1\<rparr>"
      and owner = truck and nz = origin0 and contact = bump]
    first_check_emits_iff [where g = "\<lparr>GetPlayerController = controls pilot, GetTime = 1\<rparr>"
      and ownr' = "Some gunship" and timeSlice = 0]
  by (simp add: soldier_is_local driver_in_truck pilot_in_gunship
        SUPPRESSION_FEEDBACK_INTERVAL_def COLLISION_COOLDOWN_def ROTOR_FEEDBACK_INTERVAL_def)



subsection \<open>Damage\<close>

text \<open>
  Claim C10. When \<^verbatim>\<open>OnDamage\<close> runs for the local player with a damage above 0 and the
  scaled health is then at most 0, it sends exactly two events, \<open>player_damage\<close> and
  then \<open>player_death\<close>, both with the angle computed once from the hit position. For a
  vehicle the local player sits in, the two events are \<open>vehicle_damage\<close> and
  \<open>vehicle_explosion\<close>, again with one angle.
\<close>

theorem lethal_hit_events:
  "(IsLocalPlayer g (cdm_GetOwner c) \<and> 0 < dmg \<and> cdm_GetHealthScaled c \<le> 0 \<longrightarrow>
      cdm_OnDamage nz g c dmg hitPosition =
        [\<lparr>e_eventType = ''player_damage'',
           e_angle = CalculateDamageAngle nz (cdm_GetOwner c) hitPosition,
           e_damage = dmg, e_intensity = 0\<rparr>,
         \<lparr>e_eventType = ''player_death'',
           e_angle = CalculateDamageAngle nz (cdm_GetOwner c) hitPosition,
           e_damage = dmg, e_intensity = 0\<rparr>])
   \<and> (vdm_IsLocalPlayerInVehicle g (vdm_GetOwner v) \<and> 0 < dmg \<and> vdm_GetHealthScaled v \<le> 0 \<longrightarrow>
      vdm_OnDamage nz g v dmg hitPosition =
        [\<lparr>e_eventType = ''vehicle_damage'',
           e_angle = CalculateHitAngle nz (vdm_GetOwner v) hitPosition,
           e_damage = dmg, e_intensity = 0\<rparr>,
         \<lparr>e_eventType = ''vehicle_explosion'',
           e_angle = CalculateHitAngle nz (vdm_GetOwner v) hitPosition,
           e_damage = 100, e_intensity = 0\<rparr>])"
  by (simp add: cdm_OnDamage_def vdm_OnDamage_def Let_def)

theorem lethal_hit_events_witness:
  "(IsLocalPlayer \<lparr>GetPlayerController = controls soldier, GetTime = 7\<rparr> (Some soldier)
     \<and> (0::int) < 20 \<and> (0::real) \<le> 0)
   \<and> cdm_OnDamage origin0 \<lparr>GetPlayerController = controls soldier, GetTime = 7\<rparr>
        \<lparr>cdm_GetOwner = Some soldier, cdm_GetHealthScaled = 0\<rparr> 20 (Vector 0 0 (- 5)) =
        [\<lparr>e_eventType = ''player_damage'',
           e_angle = CalculateDamageAngle origin0 (Some soldier) (Vector 0 0 (- 5)),
           e_damage = 20, e_intensity = 0\<rparr>,
         \<lparr>e_eventType = ''player_death'',
           e_angle = CalculateDamageAngle origin0 (Some soldier) (Vector 0 0 (- 5)),
           e_damage = 20, e_intensity = 0\<rparr>]
   \<and> vdm_IsLocalPlayerInVehicle \<lparr>GetPlayerController = controls driver, GetTime = 7\<rparr> (Some truck)
   \<and> vdm_OnDamage origin0 \<lparr>GetPlayerController = controls driver, GetTime = 7\<rparr>
        \<lparr>vdm_GetOwner = Some truck, vdm_GetHealthScaled = 0\<rparr> 20 (Vector 0 0 (- 5)) =
        [\<lparr>e_eventType = ''vehicle_damage'',
           e_angle = CalculateHitAngle origin0 (Some truck) (Vector 0 0 (- 5)),
           e_damage = 20, e_intensity = 0\<rparr>,
         \<lparr>e_eventType = ''vehicle_explosion'',
           e_angle = CalculateHitAngle origin0 (Some truck) (Vector 0 0 (- 5)),
           e_damage = 100, e_intensity = 0\<rparr>]"
  using lethal_hit_events [where g = "\<lparr>GetPlayerController = controls soldier, GetTime = 7\<rparr>"
      and c = "\<lparr>cdm_GetOwner = Some soldier, cdm_GetHealthScaled = 0\<rparr>" and dmg = 20
      and nz = origin0 and hitPosition = "Vector 0 0 (- 5)"]
    lethal_hit_events [where g = "\<lparr>GetPlayerController = controls driver, GetTime = 7\<rparr>"
      and v = "\<lparr>vdm_GetOwner = Some truck, vdm_GetHealthScaled = 0\<rparr>" and dmg = 20
      and nz = origin0 and hitPosition = "Vector 0 0 (- 5)"]
  by (simp add: soldier_is_local driver_in_truck_vdm)

subsection \<open>The TCP client\<close>

lemma Format_event: \<open>Format ''"event":"%1",'' [x] = ''"event":"'' @ x @ ''",''\<close>
  by simp

lemma Format_angle: \<open>Format ''"angle":%1,'' [x] = ''"angle":'' @ x @ '',''\<close>
  by simp

lemma Format_damage: \<open>Format ''"damage":%1'' [x] = ''"damage":'' @ x\<close>
  by simp

lemma Format_intensity: \<open>Format '',"intensity":%1'' [x] = '',"intensity":'' @ x\<close>
  by simp

lemma Format_sending:
  "Format ''[ThirdSpaceVest] Sending event: %1'' [x] = ''[ThirdSpaceVest] Sending event: '' @ x"
  by simp

text \<open>
  Claim C8. For every event type, angle, damage and intensity the encoder produces the
  object with the fields \<open>cmd\<close>, \<open>event\<close>, \<open>angle\<close>, \<open>damage\<close> in this order, \<open>cmd\<close>
  being the literal \<open>armareforger_event\<close> and the event type standing between double
  quotes; the field \<open>intensity\<close> follows exactly when the intensity is above 0. Floats
  are printed by the engine's \<^verbatim>\<open>ToString\<close>, here \<open>fts\<close>.
\<close>

theorem BuildEventJson_text:
  \<open>BuildEventJson fts eventType angle damage intensity =
     ''{"cmd":"armareforger_event","event":"'' @ eventType @ ''","angle":'' @ fts angle
       @ '',"damage":'' @ int_ToString damage
       @ (if 0 < intensity then '',"intensity":'' @ fts intensity else []) @ ''}''\<close>
  unfolding BuildEventJson_def Let_def Format_event Format_angle Format_damage Format_intensity
  by simp

theorem BuildEventJson_text_witness:
  \<open>BuildEventJson (\<lambda>r. if r = 180 then ''180'' else ''3'') ''player_damage'' 180 20 0 =
      ''{"cmd":"armareforger_event","event":"player_damage","angle":180,"damage":20}''
   \<and> BuildEventJson (\<lambda>r. if r = 180 then ''180'' else ''3'') ''helicopter_rotor'' 180 0 3 =
      ''{"cmd":"armareforger_event","event":"helicopter_rotor","angle":180,"damage":0,"intensity":3}''\<close>
  using BuildEventJson_text [of "\<lambda>r. if r = 180 then ''180'' else ''3''" "''player_damage''" 180 20 0]
    BuildEventJson_text [of "\<lambda>r. if r = 180 then ''180'' else ''3''" "''helicopter_rotor''" 180 0 3]
  by (simp add: int_ToString_def digit_def)

text \<open>
  Claim C5. An event submitted while the client is not connected is dropped: \<^verbatim>\<open>SendEvent\<close>
  returns the client as it was (there is no socket to write to and no buffer to fill) and
  its only effect is the diagnostic line it prints. It has no failing branch. The function
  does not read the connection state, so the same holds when the client is connected.
\<close>

theorem SendEvent_not_connected:
  "\<not> IsConnected s \<Longrightarrow>
     SendEvent fts s eventType angle damage intensity =
       (s, [''[ThirdSpaceVest] Sending event: ''
              @ BuildEventJson fts eventType angle damage intensity])"
  unfolding SendEvent_def Let_def Format_sending by simp

theorem SendEvent_not_connected_witness:
  "\<not> IsConnected TcpClient_init
   \<and> SendEvent (\<lambda>r. ''0'') TcpClient_init ''weapon_fire_rifle'' 0 0 0 =
       (TcpClient_init,
        [''[ThirdSpaceVest] Sending event: ''
           @ BuildEventJson (\<lambda>r. ''0'') ''weapon_fire_rifle'' 0 0 0])"
  using SendEvent_not_connected [of TcpClient_init "\<lambda>r. ''0''" "''weapon_fire_rifle''" 0 0 0]
  by (simp add: IsConnected_def TcpClient_init_def)

text \<open>
  Claim C6 says that connecting to an unreachable daemon fails and leaves the client not
  connected. \<^verbatim>\<open>TryConnect\<close> does not look at the network: it sets the flag, prints the
  success line and returns true from every state, and its failure branch is never taken.
\<close>

theorem TryConnect_reports_success:
  "TryConnect s =
     (True, s\<lparr>s_bConnected := True\<rparr>,
      [''[ThirdSpaceVest] Attempting to connect to daemon...'',
       ''[ThirdSpaceVest] Connected to daemon at 127.0.0.1:5050''])"
  by (simp add: TryConnect_def Let_def DAEMON_HOST_def DAEMON_PORT_def int_ToString_def digit_def)

end
